theory Spec2Isabelle
  imports Main "HOL-Library.AList"
begin

section \<open>The plotting package initialiser of hcipy\<close>

text \<open>
  The source is \<^verbatim>\<open>hcipy/plotting/__init__.py\<close>:
  \<^verbatim>\<open>
  __all__ = ['GifWriter', 'FFMpegWriter']
  __all__ += ['set_color_scheme']
  __all__ += ['plot_kde_density_1d', 'plot_kde_density_2d', 'plot_rug', 'plot_density_scatter']
  __all__ += ['errorfill']
  __all__ += ['imshow_field', 'contour_field', 'contourf_field']

  from .animation import *
  from .color_scheme import *
  from .density import *
  from .error_bars import *
  from .field import *
  \<close>
  It is a module body of ten statements of three forms: an assignment of a new list to
  \<^verbatim>\<open>__all__\<close>, an in-place extension of the list bound to \<^verbatim>\<open>__all__\<close>, and a
  wildcard import from a sibling module. The body is embedded as the list of its statements
  and run by an interpreter of these three forms over an explicit store.
\<close>

subsection \<open>Objects, namespaces and the store\<close>

text \<open>
  Objects live in a heap and are referred to by address; two names denote the identical
  object when they hold the same address. A list is mutable (\<^verbatim>\<open>+=\<close> extends it in
  place); a tuple and a string are not, and like a list they are sequences, which a
  wildcard import can walk; every other object (a function, a class, a module, a number, a
  set) is opaque here and is no sequence. A namespace is a Python dict from names to
  references: an association list in insertion order, read with \<^const>\<open>map_of\<close> and written
  with \<^const>\<open>AList.update\<close>, which keeps the place of a key it already has and appends a
  new one.
\<close>

type_synonym addr = nat

datatype pyobj = PyList "string list" | PyTuple "string list" | PyStr string | PyOpaque

type_synonym namespace = "(string \<times> addr) list"

text \<open>
  The errors of the three statement forms, and \<open>Raised\<close> for whatever exception the
  top-level code of a sibling module raises while it is loaded.
\<close>

datatype error = NameError | TypeError | AttributeError | ModuleNotFoundError | Raised string

text \<open>An effect on the world outside the interpreter's objects: I/O, process-wide settings.\<close>

type_synonym event = string

text \<open>
  The state.
  \<^item> \<open>heap\<close>: the objects.
  \<^item> \<open>modules\<close>: the sibling modules the import system can find, by their relative name,
    each with the namespace its top-level code leaves.
  \<^item> \<open>globals\<close>: the namespace of the package, in which the body runs.
  \<^item> \<open>sys_modules\<close>: the sibling modules that are loaded, each with its module object.
  \<^item> \<open>loaders\<close>: what the top-level code of a sibling does when the sibling is loaded:
    the effects it has on the world and the exception it ends with, if any. A sibling
    without an entry has no effect and raises nothing.
  \<^item> \<open>world\<close>: the effects that have happened, in order.

  The five sibling modules are not part of the source at hand, so they are a parameter of
  every property below, carried in \<open>modules\<close> and \<open>loaders\<close>. The objects a sibling
  defines are in the heap from the start; loading a sibling runs its top-level code with
  its effects, creates its module object and registers it.

  Two things the runtime does are left out, and no property below depends on them. The
  attributes of a module are taken to be the entries of its dict. And a new module
  namespace is empty: the names the runtime presets (\<^verbatim>\<open>__name__\<close>, \<^verbatim>\<open>__path__\<close> and the
  like) are not in it.
\<close>

record state =
  heap :: "pyobj list"
  modules :: "(string \<times> namespace) list"
  globals :: namespace
  sys_modules :: "(string \<times> addr) list"
  loaders :: "(string \<times> event list \<times> error option) list"
  world :: "event list"

definition heap_get :: "pyobj list \<Rightarrow> addr \<Rightarrow> pyobj option" where
  "heap_get h a = (if a < length h then Some (h ! a) else None)"

subsection \<open>The three statement forms\<close>

datatype stmt =
    Assign_all "string list"
  | Aug_all "string list"
  | Import_star string

text \<open>
  Which names \<^verbatim>\<open>from m import *\<close> takes from a module: the items of the module's own
  \<^verbatim>\<open>__all__\<close> when it has one, otherwise every key of the module's dict that does not
  start with an underscore. The items are read by index: those of a list or a tuple are
  its entries, those of a string are its characters, and an object that is no sequence
  raises \<^verbatim>\<open>TypeError\<close>.
\<close>

fun leading_underscore :: "string \<Rightarrow> bool" where
  "leading_underscore [] = False"
| "leading_underscore (c # cs) = (c = CHR ''_'')"

fun items :: "pyobj \<Rightarrow> string list option" where
  "items (PyList xs) = Some xs"
| "items (PyTuple xs) = Some xs"
| "items (PyStr cs) = Some (map (\<lambda>c. [c]) cs)"
| "items PyOpaque = None"

definition star_names :: "pyobj list \<Rightarrow> namespace \<Rightarrow> error + string list" where
  "star_names h ns =
     (case map_of ns ''__all__'' of
        None \<Rightarrow> Inr (filter (\<lambda>n. \<not> leading_underscore n) (map fst ns))
      | Some a \<Rightarrow>
          (case heap_get h a of
             None \<Rightarrow> Inl TypeError
           | Some obj \<Rightarrow> (case items obj of None \<Rightarrow> Inl TypeError | Some xs \<Rightarrow> Inr xs)))"

text \<open>
  The copying loop of the wildcard import: each name is looked up in the module and bound
  in the importing namespace, in order; a name the module does not have raises
  \<^verbatim>\<open>AttributeError\<close> and leaves the names bound so far in place.
\<close>

fun bind_all :: "namespace \<Rightarrow> string list \<Rightarrow> namespace \<Rightarrow> error option \<times> namespace" where
  "bind_all ns [] g = (None, g)"
| "bind_all ns (n # names) g =
     (case map_of ns n of
        None \<Rightarrow> (Some AttributeError, g)
      | Some a \<Rightarrow> bind_all ns names (AList.update n a g))"

text \<open>
  Getting hold of the sibling module \<open>m\<close>. A sibling that is loaded already is taken
  from \<open>sys_modules\<close> and nothing else happens. Otherwise its top-level code runs: its
  effects happen; when it raises, the exception goes on to the importer and the sibling
  is not registered; when it completes, a module object is created and registered, and the
  import system binds it under the sibling's own name in the package.
\<close>

definition top_level :: "state \<Rightarrow> string \<Rightarrow> event list \<times> error option" where
  "top_level s m = (case map_of (loaders s) m of None \<Rightarrow> ([], None) | Some l \<Rightarrow> l)"

definition load_module :: "string \<Rightarrow> state \<Rightarrow> error option \<times> state" where
  "load_module m s =
     (case map_of (sys_modules s) m of
        Some a \<Rightarrow> (None, s)
      | None \<Rightarrow>
          (case snd (top_level s m) of
             Some e \<Rightarrow> (Some e, s\<lparr>world := world s @ fst (top_level s m)\<rparr>)
           | None \<Rightarrow>
               (None, s\<lparr>heap := heap s @ [PyOpaque],
                        globals := AList.update m (length (heap s)) (globals s),
                        sys_modules := AList.update m (length (heap s)) (sys_modules s),
                        world := world s @ fst (top_level s m)\<rparr>)))"

text \<open>
  One statement. The result is the raised error, if any, and the state reached.
  \<^item> \<^verbatim>\<open>__all__ = [...]\<close> allocates a new list object and binds \<^verbatim>\<open>__all__\<close> to it.
  \<^item> \<^verbatim>\<open>__all__ += [...]\<close> reads \<^verbatim>\<open>__all__\<close> (\<^verbatim>\<open>NameError\<close> when unbound), extends the
    list object it is bound to in place (\<^verbatim>\<open>TypeError\<close> when that object is not a list),
    and stores the same reference back.
  \<^item> \<^verbatim>\<open>from .m import *\<close> finds the module (\<^verbatim>\<open>ModuleNotFoundError\<close> when there is none),
    loads it when it is not loaded yet, determines the names to take and copies their
    bindings.
\<close>

fun exec_stmt :: "stmt \<Rightarrow> state \<Rightarrow> error option \<times> state" where
  "exec_stmt (Assign_all xs) s =
     (None, s\<lparr>heap := heap s @ [PyList xs],
              globals := AList.update ''__all__'' (length (heap s)) (globals s)\<rparr>)"
| "exec_stmt (Aug_all xs) s =
     (case map_of (globals s) ''__all__'' of
        None \<Rightarrow> (Some NameError, s)
      | Some a \<Rightarrow>
          (case heap_get (heap s) a of
             Some (PyList ys) \<Rightarrow>
               (None, s\<lparr>heap := (heap s)[a := PyList (ys @ xs)],
                        globals := AList.update ''__all__'' a (globals s)\<rparr>)
           | _ \<Rightarrow> (Some TypeError, s)))"
| "exec_stmt (Import_star m) s =
     (case map_of (modules s) m of
        None \<Rightarrow> (Some ModuleNotFoundError, s)
      | Some ns \<Rightarrow>
          (case load_module m s of
             (Some e, s1) \<Rightarrow> (Some e, s1)
           | (None, s1) \<Rightarrow>
               (case star_names (heap s1) ns of
                  Inl e \<Rightarrow> (Some e, s1)
                | Inr names \<Rightarrow>
                    (case bind_all ns names (globals s1) of
                       (r, g) \<Rightarrow> (r, s1\<lparr>globals := g\<rparr>)))))"

text \<open>A statement list runs in order and stops at the first statement that raises.\<close>

fun exec_stmts :: "stmt list \<Rightarrow> state \<Rightarrow> error option \<times> state" where
  "exec_stmts [] s = (None, s)"
| "exec_stmts (c # cs) s =
     (case exec_stmt c s of
        (None, s') \<Rightarrow> exec_stmts cs s'
      | (Some e, s') \<Rightarrow> (Some e, s'))"

subsection \<open>The module body\<close>

definition export_decls :: "stmt list" where
  "export_decls =
     [Assign_all [''GifWriter'', ''FFMpegWriter''],
      Aug_all [''set_color_scheme''],
      Aug_all [''plot_kde_density_1d'', ''plot_kde_density_2d'', ''plot_rug'',
               ''plot_density_scatter''],
      Aug_all [''errorfill''],
      Aug_all [''imshow_field'', ''contour_field'', ''contourf_field'']]"

definition collaborators :: "string list" where
  "collaborators = [''animation'', ''color_scheme'', ''density'', ''error_bars'', ''field'']"

definition star_imports :: "stmt list" where
  "star_imports = map Import_star collaborators"

definition plotting_init :: "stmt list" where
  "plotting_init = export_decls @ star_imports"

definition run_body :: "state \<Rightarrow> error option \<times> state" where
  "run_body s = exec_stmts plotting_init s"

text \<open>
  What an \<^verbatim>\<open>import\<close> of the package gives its caller: the body runs on a new, empty
  namespace; when it raises, the import raises the same error and the module is dropped,
  otherwise the caller holds the state with the module's namespace.
\<close>

definition fresh :: "state \<Rightarrow> state" where
  "fresh s = s\<lparr>globals := []\<rparr>"

definition import_plotting :: "state \<Rightarrow> error + state" where
  "import_plotting s =
     (case run_body (fresh s) of
        (None, s') \<Rightarrow> Inr s'
      | (Some e, _) \<Rightarrow> Inl e)"

text \<open>Resolving a name through what the import returned; nothing resolves after a raise.\<close>

definition resolve :: "error + state \<Rightarrow> string \<Rightarrow> addr option" where
  "resolve r n = (case r of Inl _ \<Rightarrow> None | Inr s \<Rightarrow> map_of (globals s) n)"

text \<open>The contents of the export list of a state: the items of what \<^verbatim>\<open>__all__\<close> is bound to.\<close>

definition export_list :: "state \<Rightarrow> string list option" where
  "export_list s =
     (case map_of (globals s) ''__all__'' of
        None \<Rightarrow> None
      | Some a \<Rightarrow> (case heap_get (heap s) a of None \<Rightarrow> None | Some obj \<Rightarrow> items obj))"

text \<open>The eleven names, in the order of the five groups.\<close>

definition declared_names :: "string list" where
  "declared_names =
     [''GifWriter'', ''FFMpegWriter'', ''set_color_scheme'',
      ''plot_kde_density_1d'', ''plot_kde_density_2d'', ''plot_rug'', ''plot_density_scatter'',
      ''errorfill'', ''imshow_field'', ''contour_field'', ''contourf_field'']"

subsection \<open>Vocabulary of the properties\<close>

text \<open>The state in which the first wildcard import starts, the five declarations done.\<close>

definition after_decls :: "state \<Rightarrow> state" where
  "after_decls s =
     s\<lparr>heap := heap s @ [PyList declared_names],
       globals := AList.update ''__all__'' (length (heap s)) (globals s)\<rparr>"

text \<open>
  The binding a wildcard import takes from module \<open>m\<close> for the name \<open>n\<close>, if any: the
  module is found, its names can be determined, \<open>n\<close> is among them and the module defines it.
\<close>

definition exported ::
  "pyobj list \<Rightarrow> (string \<times> namespace) list \<Rightarrow> string \<Rightarrow> string \<Rightarrow> addr option" where
  "exported h mods m n =
     (case map_of mods m of
        None \<Rightarrow> None
      | Some ns \<Rightarrow>
          (case star_names h ns of
             Inl _ \<Rightarrow> None
           | Inr names \<Rightarrow> if n \<in> set names then map_of ns n else None))"

text \<open>
  The error that finding module \<open>m\<close> and copying its names raises, if any: the module is
  missing, its \<^verbatim>\<open>__all__\<close> is no sequence, or its \<^verbatim>\<open>__all__\<close> has an item the module
  itself does not define. The export list of the importing package plays no part in it.
\<close>

definition import_fault ::
  "pyobj list \<Rightarrow> (string \<times> namespace) list \<Rightarrow> string \<Rightarrow> error option" where
  "import_fault h mods m =
     (case map_of mods m of
        None \<Rightarrow> Some ModuleNotFoundError
      | Some ns \<Rightarrow>
          (case star_names h ns of
             Inl e \<Rightarrow> Some e
           | Inr names \<Rightarrow>
               if list_all (\<lambda>n. map_of ns n \<noteq> None) names then None
               else Some AttributeError))"

text \<open>The exception with which loading module \<open>m\<close> ends, if it has to be loaded at all.\<close>

definition load_fault :: "state \<Rightarrow> string \<Rightarrow> error option" where
  "load_fault s m =
     (case map_of (sys_modules s) m of Some a \<Rightarrow> None | None \<Rightarrow> snd (top_level s m))"

text \<open>
  The error of the whole wildcard import from \<open>m\<close>: the module is missing, its load
  raises, or the copying faults; and the first error among the modules of a list.
\<close>

definition module_fault :: "state \<Rightarrow> string \<Rightarrow> error option" where
  "module_fault s m =
     (case map_of (modules s) m of
        None \<Rightarrow> Some ModuleNotFoundError
      | Some ns \<Rightarrow>
          (case load_fault s m of
             Some e \<Rightarrow> Some e
           | None \<Rightarrow> import_fault (heap s) (modules s) m))"

fun first_fault :: "state \<Rightarrow> string list \<Rightarrow> error option" where
  "first_fault s [] = None"
| "first_fault s (m # ms) =
     (case module_fault s m of Some e \<Rightarrow> Some e | None \<Rightarrow> first_fault s ms)"

text \<open>Last wins: of the modules of a list that export \<open>n\<close>, the last one gives the binding.\<close>

fun last_wins ::
  "pyobj list \<Rightarrow> (string \<times> namespace) list \<Rightarrow> string list \<Rightarrow> string \<Rightarrow> addr option" where
  "last_wins h mods [] n = None"
| "last_wins h mods (m # ms) n =
     (case last_wins h mods ms n of Some a \<Rightarrow> Some a | None \<Rightarrow> exported h mods m n)"


fun later :: "string \<Rightarrow> string list \<Rightarrow> string list" where
  "later m [] = []"
| "later m (x # xs) = (if x = m then xs else later m xs)"

text \<open>
  The owner of each declared name: the \<open>k\<close>-th line of the export declarations lists the
  names of the \<open>k\<close>-th imported module.
\<close>

definition owners :: "(string \<times> string) list" where
  "owners =
     [(''GifWriter'', ''animation''), (''FFMpegWriter'', ''animation''),
      (''set_color_scheme'', ''color_scheme''),
      (''plot_kde_density_1d'', ''density''), (''plot_kde_density_2d'', ''density''),
      (''plot_rug'', ''density''), (''plot_density_scatter'', ''density''),
      (''errorfill'', ''error_bars''),
      (''imshow_field'', ''field''), (''contour_field'', ''field''),
      (''contourf_field'', ''field'')]"

text \<open>
  No dangling reference: every address held by a sibling module's namespace is allocated.
  The Python runtime keeps this invariant; a state that breaks it is not one a program
  can be in.
\<close>

definition refs_in_heap :: "pyobj list \<Rightarrow> namespace \<Rightarrow> bool" where
  "refs_in_heap h ns = list_all (\<lambda>(n, a). a < length h) ns"

definition well_formed :: "state \<Rightarrow> bool" where
  "well_formed s = list_all (\<lambda>(m, ns). refs_in_heap (heap s) ns) (modules s)"



subsection \<open>Concrete states\<close>

text \<open>
  A state before the first import of the package, in which every sibling module defines
  the names the package declares for it: objects 0 to 10 are the eleven functions and
  classes, object 11 is a library module that several siblings import under the name
  \<^verbatim>\<open>np\<close>, and object 12 is the \<^verbatim>\<open>__all__\<close> list of the density module, the only sibling
  here that declares one. No sibling is loaded yet; the top-level code of the animation
  module reads a configuration file and that of the color scheme module changes the
  process-wide plotting defaults.
\<close>

definition demo_state :: state where
  "demo_state =
     \<lparr>heap = replicate 12 PyOpaque @
          [PyList [''plot_kde_density_1d'', ''plot_kde_density_2d'', ''plot_rug'',
                   ''plot_density_scatter'']],
      modules =
        [(''animation'', [(''np'', 11), (''GifWriter'', 0), (''FFMpegWriter'', 1)]),
         (''color_scheme'', [(''set_color_scheme'', 2)]),
         (''density'',
            [(''__all__'', 12), (''np'', 11), (''plot_kde_density_1d'', 3),
             (''plot_kde_density_2d'', 4), (''plot_rug'', 5), (''plot_density_scatter'', 6)]),
         (''error_bars'', [(''np'', 11), (''errorfill'', 7)]),
         (''field'',
            [(''np'', 11), (''_cache'', 11), (''imshow_field'', 8), (''contour_field'', 9),
             (''contourf_field'', 10)])],
      globals = [],
      sys_modules = [],
      loaders =
        [(''animation'', ([''read matplotlibrc''], None)),
         (''color_scheme'', ([''set rcParams''], None))],
      world = []\<rparr>"

text \<open>The same state with one sibling module replaced, and with one more object.\<close>

definition with_module :: "string \<Rightarrow> namespace \<Rightarrow> state \<Rightarrow> state" where
  "with_module m ns s = s\<lparr>modules := AList.update m ns (modules s)\<rparr>"

definition with_object :: "pyobj \<Rightarrow> state \<Rightarrow> state" where
  "with_object obj s = s\<lparr>heap := heap s @ [obj]\<rparr>"


text \<open>The field module lists \<^verbatim>\<open>__all__\<close> in its own \<^verbatim>\<open>__all__\<close> (object 13).\<close>

definition reexport_state :: state where
  "reexport_state =
     with_module ''field''
       [(''__all__'', 13), (''imshow_field'', 8), (''contour_field'', 9),
        (''contourf_field'', 10)]
       (with_object
          (PyList [''__all__'', ''imshow_field'', ''contour_field'', ''contourf_field''])
          demo_state)"

text \<open>The animation module declares a tuple \<^verbatim>\<open>__all__\<close> that names itself (object 13).\<close>

definition tuple_reexport_state :: state where
  "tuple_reexport_state =
     with_module ''animation''
       [(''__all__'', 13), (''GifWriter'', 0), (''FFMpegWriter'', 1)]
       (with_object (PyTuple [''GifWriter'', ''FFMpegWriter'', ''__all__'']) demo_state)"



text \<open>
  The error bars module declares an \<^verbatim>\<open>__all__\<close> (object 13) with a name it does not
  define.
\<close>

definition bad_all_state :: state where
  "bad_all_state =
     with_module ''error_bars'' [(''__all__'', 13), (''errorfill'', 7)]
       (with_object (PyList [''errorfill'', ''errorbar'']) demo_state)"

text \<open>The error bars module is a stub that defines no \<^verbatim>\<open>errorfill\<close>.\<close>

definition no_errorfill_state :: state where
  "no_errorfill_state = with_module ''error_bars'' [(''np'', 11)] demo_state"


text \<open>The field module defines a \<^verbatim>\<open>GifWriter\<close> of its own (object 13).\<close>

definition shadow_state :: state where
  "shadow_state =
     with_module ''field''
       [(''np'', 11), (''GifWriter'', 13), (''imshow_field'', 8), (''contour_field'', 9),
        (''contourf_field'', 10)]
       (with_object PyOpaque demo_state)"




section \<open>Properties\<close>

subsection \<open>The export declarations\<close>

lemma exec_export_decls: "exec_stmts export_decls s = (None, after_decls s)"
  by (simp add: export_decls_def declared_names_def after_decls_def heap_get_def update_conv')

lemma after_decls_simps:
  "heap (after_decls s) = heap s @ [PyList declared_names]"
  "modules (after_decls s) = modules s"
  "sys_modules (after_decls s) = sys_modules s"
  "loaders (after_decls s) = loaders s"
  "world (after_decls s) = world s"
  "map_of (globals (after_decls s)) n =
     (if n = ''__all__'' then Some (length (heap s)) else map_of (globals s) n)"
  by (simp_all add: after_decls_def update_conv')

subsection \<open>The copying loop\<close>

lemma bind_all_fst:
  "fst (bind_all ns names g) =
     (if list_all (\<lambda>n. map_of ns n \<noteq> None) names then None else Some AttributeError)"
  by (induction names arbitrary: g) (auto split: option.splits)

lemma bind_all_other:
  "n \<notin> set names \<or> map_of ns n = None \<Longrightarrow> map_of (snd (bind_all ns names g)) n = map_of g n"
proof (induction names arbitrary: g)
  case Nil
  show ?case by simp
next
  case (Cons x xs)
  show ?case
  proof (cases "map_of ns x")
    case None
    then show ?thesis by simp
  next
    case (Some a)
    with Cons.prems have "n \<noteq> x" by auto
    moreover from Cons.prems have "n \<notin> set xs \<or> map_of ns n = None" by auto
    ultimately show ?thesis using Some Cons.IH by (simp add: update_conv')
  qed
qed

lemma bind_all_bound:
  "fst (bind_all ns names g) = None \<Longrightarrow> n \<in> set names \<Longrightarrow>
   map_of (snd (bind_all ns names g)) n = map_of ns n"
proof (induction names arbitrary: g)
  case Nil
  then show ?case by simp
next
  case (Cons x xs)
  from Cons.prems(1) obtain a where a: "map_of ns x = Some a"
    by (cases "map_of ns x") auto
  with Cons.prems(1) have ok: "fst (bind_all ns xs (AList.update x a g)) = None"
    by simp
  show ?case
  proof (cases "n \<in> set xs")
    case True
    with Cons.IH [OF ok] a show ?thesis by simp
  next
    case False
    with Cons.prems(2) have "n = x" by simp
    with False a show ?thesis by (simp add: bind_all_other update_conv')
  qed
qed

subsection \<open>Loading a sibling\<close>

lemma load_module_fst: "fst (load_module m s) = load_fault s m"
  by (simp add: load_module_def load_fault_def split: option.splits)

lemma load_module_same:
  "modules (snd (load_module m s)) = modules s"
  "loaders (snd (load_module m s)) = loaders s"
  by (simp_all add: load_module_def split: option.splits)

lemma load_module_heap: "\<exists>x. heap (snd (load_module m s)) = heap s @ x"
  by (simp add: load_module_def split: option.splits)


lemma load_module_globals:
  "n \<noteq> m \<Longrightarrow> map_of (globals (snd (load_module m s))) n = map_of (globals s) n"
  by (simp add: load_module_def update_conv' split: option.splits)

lemma load_module_sys_other:
  "m' \<noteq> m \<Longrightarrow> map_of (sys_modules (snd (load_module m s))) m' = map_of (sys_modules s) m'"
  by (simp add: load_module_def update_conv' split: option.splits)

lemma load_module_sys:
  "load_fault s m = None \<Longrightarrow> map_of (sys_modules (snd (load_module m s))) m \<noteq> None"
  by (auto simp: load_module_def load_fault_def update_conv' split: option.splits)


subsection \<open>One wildcard import\<close>

lemma exec_import_star:
  "exec_stmt (Import_star m) s =
     (case map_of (modules s) m of
        None \<Rightarrow> (Some ModuleNotFoundError, s)
      | Some ns \<Rightarrow>
          (case load_fault s m of
             Some e \<Rightarrow> (Some e, snd (load_module m s))
           | None \<Rightarrow>
               (case star_names (heap (snd (load_module m s))) ns of
                  Inl e \<Rightarrow> (Some e, snd (load_module m s))
                | Inr names \<Rightarrow>
                    (fst (bind_all ns names (globals (snd (load_module m s)))),
                     (snd (load_module m s))
                       \<lparr>globals := snd (bind_all ns names (globals (snd (load_module m s))))\<rparr>))))"
  by (cases "load_module m s")
     (auto simp: load_module_fst [symmetric] case_prod_beta split: option.splits sum.splits)

declare exec_stmt.simps(3) [simp del]

lemma import_star_same:
  "modules (snd (exec_stmt (Import_star m) s)) = modules s"
  "loaders (snd (exec_stmt (Import_star m) s)) = loaders s"
  by (simp_all add: exec_import_star load_module_same
      split: option.splits sum.splits)

lemma import_star_heap: "\<exists>x. heap (snd (exec_stmt (Import_star m) s)) = heap s @ x"
  using load_module_heap [of m s]
  by (auto simp add: exec_import_star split: option.splits sum.splits)


lemma import_star_sys_other:
  "m' \<noteq> m \<Longrightarrow>
   map_of (sys_modules (snd (exec_stmt (Import_star m) s))) m' = map_of (sys_modules s) m'"
  by (simp add: exec_import_star load_module_sys_other
      split: option.splits sum.splits)


lemma import_star_fst:
  "fst (exec_stmt (Import_star m) s) =
     (case map_of (modules s) m of
        None \<Rightarrow> Some ModuleNotFoundError
      | Some ns \<Rightarrow>
          (case load_fault s m of
             Some e \<Rightarrow> Some e
           | None \<Rightarrow>
               import_fault (heap (snd (exec_stmt (Import_star m) s))) (modules s) m))"
  by (simp add: exec_import_star import_fault_def bind_all_fst
      split: option.splits sum.splits)

lemma import_star_ok:
  assumes "fst (exec_stmt (Import_star m) s) = None"
  shows "import_fault (heap (snd (exec_stmt (Import_star m) s))) (modules s) m = None"
    and "map_of (sys_modules (snd (exec_stmt (Import_star m) s))) m \<noteq> None"
proof -
  from assms obtain ns where ns: "map_of (modules s) m = Some ns"
    by (subst (asm) import_star_fst) (cases "map_of (modules s) m", auto)
  from assms ns have lf: "load_fault s m = None"
    by (subst (asm) import_star_fst) (simp split: option.splits)
  from assms ns lf
  show "import_fault (heap (snd (exec_stmt (Import_star m) s))) (modules s) m = None"
    by (subst (asm) import_star_fst) simp
  from load_module_sys [OF lf] ns lf
  show "map_of (sys_modules (snd (exec_stmt (Import_star m) s))) m \<noteq> None"
    by (simp add: exec_import_star split: sum.splits)
qed

lemma import_star_keep:
  assumes ex: "exported (heap (snd (exec_stmt (Import_star m) s))) (modules s) m n = None"
    and nm: "n \<noteq> m"
  shows "map_of (globals (snd (exec_stmt (Import_star m) s))) n = map_of (globals s) n"
proof (cases "map_of (modules s) m")
  case None
  then show ?thesis by (simp add: exec_import_star)
next
  case (Some ns)
  let ?s1 = "snd (load_module m s)"
  have g1: "map_of (globals ?s1) n = map_of (globals s) n"
    using nm by (rule load_module_globals)
  show ?thesis
  proof (cases "load_fault s m")
    case (Some e)
    with \<open>map_of (modules s) m = Some ns\<close> g1 show ?thesis
      by (simp add: exec_import_star)
  next
    case None
    show ?thesis
    proof (cases "star_names (heap ?s1) ns")
      case (Inl e)
      with None \<open>map_of (modules s) m = Some ns\<close> g1 show ?thesis
        by (simp add: exec_import_star)
    next
      case (Inr names)
      with None \<open>map_of (modules s) m = Some ns\<close>
      have h: "heap (snd (exec_stmt (Import_star m) s)) = heap ?s1"
        by (simp add: exec_import_star)
      have "n \<notin> set names \<or> map_of ns n = None"
        using ex \<open>map_of (modules s) m = Some ns\<close> Inr
        by (auto simp: h exported_def split: if_splits)
      then have "map_of (snd (bind_all ns names (globals ?s1))) n = map_of (globals ?s1) n"
        by (rule bind_all_other)
      with None \<open>map_of (modules s) m = Some ns\<close> Inr g1 show ?thesis
        by (simp add: exec_import_star)
    qed
  qed
qed

lemma import_star_bound:
  assumes ok: "fst (exec_stmt (Import_star m) s) = None"
    and ex: "exported (heap (snd (exec_stmt (Import_star m) s))) (modules s) m n = Some a"
  shows "map_of (globals (snd (exec_stmt (Import_star m) s))) n = Some a"
proof -
  let ?s1 = "snd (load_module m s)"
  from ex obtain ns where ns: "map_of (modules s) m = Some ns"
    by (cases "map_of (modules s) m") (auto simp: exported_def)
  from ok ns have lf: "load_fault s m = None"
    by (subst (asm) import_star_fst) (simp split: option.splits)
  from ok ns lf obtain names where names: "star_names (heap ?s1) ns = Inr names"
    by (cases "star_names (heap ?s1) ns")
       (auto simp add: exec_import_star)
  from ns lf names have h: "heap (snd (exec_stmt (Import_star m) s)) = heap ?s1"
    by (simp add: exec_import_star)
  from ex ns names have n: "n \<in> set names" and a: "map_of ns n = Some a"
    by (auto simp: h exported_def split: if_splits)
  from ok ns lf names have "fst (bind_all ns names (globals ?s1)) = None"
    by (simp add: exec_import_star)
  from bind_all_bound [OF this n] a ns lf names show ?thesis
    by (simp add: exec_import_star)
qed

lemma import_star_globals:
  assumes ok: "fst (exec_stmt (Import_star m) s) = None" and nm: "n \<noteq> m"
  shows "map_of (globals (snd (exec_stmt (Import_star m) s))) n =
     (case exported (heap (snd (exec_stmt (Import_star m) s))) (modules s) m n of
        Some a \<Rightarrow> Some a
      | None \<Rightarrow> map_of (globals s) n)"
proof (cases "exported (heap (snd (exec_stmt (Import_star m) s))) (modules s) m n")
  case None
  from import_star_keep [OF None nm] None show ?thesis by simp
next
  case (Some a)
  from import_star_bound [OF ok Some] Some show ?thesis by simp
qed

subsection \<open>A larger heap\<close>

lemma heap_get_append: "heap_get h a = Some obj \<Longrightarrow> heap_get (h @ h') a = Some obj"
  by (auto simp: heap_get_def nth_append split: if_splits)

lemma star_names_append:
  assumes sn: "star_names h ns = Inr names"
  shows "star_names (h @ h') ns = Inr names"
proof (cases "map_of ns ''__all__''")
  case None
  with sn show ?thesis by (simp add: star_names_def)
next
  case (Some a)
  with sn obtain obj where obj: "heap_get h a = Some obj"
    by (cases "heap_get h a") (auto simp: star_names_def)
  from heap_get_append [OF obj] obj sn Some show ?thesis
    by (simp add: star_names_def)
qed


lemma exported_append:
  "import_fault h mods m = None \<Longrightarrow> exported (h @ h') mods m n = exported h mods m n"
  by (auto simp: import_fault_def exported_def star_names_append
      split: option.splits sum.splits if_splits)


subsection \<open>Well-formed states\<close>

lemma star_names_wf:
  assumes "refs_in_heap h ns"
  shows "star_names (h @ h') ns = star_names h ns"
proof (cases "map_of ns ''__all__''")
  case None
  then show ?thesis by (simp add: star_names_def)
next
  case (Some a)
  then have "(''__all__'', a) \<in> set ns" by (rule map_of_SomeD)
  with assms have "a < length h" by (auto simp: refs_in_heap_def list_all_iff)
  then have "heap_get (h @ h') a = heap_get h a" by (simp add: heap_get_def nth_append)
  with Some show ?thesis by (simp add: star_names_def)
qed

lemma well_formed_module:
  "well_formed s \<Longrightarrow> map_of (modules s) m = Some ns \<Longrightarrow> refs_in_heap (heap s) ns"
  by (auto simp: well_formed_def list_all_iff dest: map_of_SomeD)

lemma import_fault_wf:
  "well_formed s \<Longrightarrow> import_fault (heap s @ h') (modules s) m = import_fault (heap s) (modules s) m"
  by (cases "map_of (modules s) m")
     (simp_all add: import_fault_def star_names_wf [OF well_formed_module])

lemma exported_wf:
  "well_formed s \<Longrightarrow> exported (heap s @ h') (modules s) m n = exported (heap s) (modules s) m n"
  by (cases "map_of (modules s) m")
     (simp_all add: exported_def star_names_wf [OF well_formed_module])

lemma last_wins_wf:
  "well_formed s \<Longrightarrow> last_wins (heap s @ h') (modules s) ms n = last_wins (heap s) (modules s) ms n"
  by (induction ms) (auto simp: exported_wf split: option.splits)

subsection \<open>Last wins\<close>

lemma last_wins_none:
  "list_all (\<lambda>m. exported h mods m n = None) ms \<Longrightarrow> last_wins h mods ms n = None"
  by (induction ms) simp_all


lemma last_wins_later:
  "m \<in> set ms \<Longrightarrow> exported h mods m n = Some a \<Longrightarrow>
   list_all (\<lambda>m'. exported h mods m' n = None) (later m ms) \<Longrightarrow>
   last_wins h mods ms n = Some a"
proof (induction ms)
  case Nil
  then show ?case by simp
next
  case (Cons x xs)
  show ?case
  proof (cases "x = m")
    case True
    with Cons.prems(3) have "last_wins h mods xs n = None"
      by (simp add: last_wins_none)
    with True Cons.prems(2) show ?thesis by simp
  next
    case False
    with Cons.prems have "last_wins h mods xs n = Some a"
      by (intro Cons.IH) simp_all
    then show ?thesis by simp
  qed
qed


lemma exported_defined:
  "exported h mods m n = Some a \<Longrightarrow> \<exists>ns. map_of mods m = Some ns \<and> map_of ns n = Some a"
  by (auto simp: exported_def split: option.splits sum.splits if_splits)

subsection \<open>A list of wildcard imports\<close>

lemma exec_stmts_Cons:
  "exec_stmts (c # cs) s =
     (if fst (exec_stmt c s) = None then exec_stmts cs (snd (exec_stmt c s)) else exec_stmt c s)"
  by (cases "exec_stmt c s") (auto split: option.splits)

declare exec_stmts.simps(2) [simp del]

lemma exec_stmts_append:
  "exec_stmts (cs @ ds) s =
     (if fst (exec_stmts cs s) = None then exec_stmts ds (snd (exec_stmts cs s))
      else exec_stmts cs s)"
  by (induction cs arbitrary: s)
     (auto simp add: exec_stmts_Cons)

lemma imports_same:
  "modules (snd (exec_stmts (map Import_star ms) s)) = modules s"
  "loaders (snd (exec_stmts (map Import_star ms) s)) = loaders s"
  by (induction ms arbitrary: s)
     (simp_all add: exec_stmts_Cons import_star_same)

lemma imports_heap: "\<exists>x. heap (snd (exec_stmts (map Import_star ms) s)) = heap s @ x"
proof (induction ms arbitrary: s)
  case Nil
  show ?case by simp
next
  case (Cons m ms)
  from import_star_heap [of m s] obtain x
    where x: "heap (snd (exec_stmt (Import_star m) s)) = heap s @ x" by blast
  from Cons.IH [of "snd (exec_stmt (Import_star m) s)"] obtain y
    where "heap (snd (exec_stmts (map Import_star ms) (snd (exec_stmt (Import_star m) s)))) =
      heap s @ x @ y" by (auto simp: x)
  with x show ?case
    by (auto simp add: exec_stmts_Cons)
qed





lemma imports_globals:
  "fst (exec_stmts (map Import_star ms) s) = None \<Longrightarrow> n \<notin> set ms \<Longrightarrow>
   map_of (globals (snd (exec_stmts (map Import_star ms) s))) n =
     (case last_wins (heap (snd (exec_stmts (map Import_star ms) s))) (modules s) ms n of
        Some a \<Rightarrow> Some a
      | None \<Rightarrow> map_of (globals s) n)"
proof (induction ms arbitrary: s)
  case Nil
  show ?case by simp
next
  case (Cons m ms)
  let ?s1 = "snd (exec_stmt (Import_star m) s)"
  let ?s' = "snd (exec_stmts (map Import_star ms) ?s1)"
  from Cons.prems have ok1: "fst (exec_stmt (Import_star m) s) = None"
    by (simp add: exec_stmts_Cons split: if_splits)
  with Cons.prems have ok2: "fst (exec_stmts (map Import_star ms) ?s1) = None"
    by (simp add: exec_stmts_Cons)
  have eq: "snd (exec_stmts (Import_star m # map Import_star ms) s) = ?s'"
    using ok1 by (simp add: exec_stmts_Cons)
  from Cons.prems have nm: "n \<noteq> m" and nms: "n \<notin> set ms" by auto
  have md: "modules ?s1 = modules s"
    by (rule import_star_same)
  from imports_heap [of ms ?s1] obtain y where y: "heap ?s' = heap ?s1 @ y" by blast
  from exported_append [OF import_star_ok(1) [OF ok1], of y n]
  have ex: "exported (heap ?s') (modules s) m n = exported (heap ?s1) (modules s) m n"
    by (simp add: y)
  have g1: "map_of (globals ?s1) n =
      (case exported (heap ?s') (modules s) m n of
         Some a \<Rightarrow> Some a
       | None \<Rightarrow> map_of (globals s) n)"
    using import_star_globals [OF ok1 nm] by (simp add: ex)
  from Cons.IH [OF ok2 nms] g1 show ?case
    by (simp add: eq md split: option.splits)
qed

lemma imports_keep:
  assumes wf: "well_formed b"
  shows "modules s = modules b \<Longrightarrow> \<exists>x. heap s = heap b @ x \<Longrightarrow>
   list_all (\<lambda>m. exported (heap b) (modules b) m n = None) ms \<Longrightarrow> n \<notin> set ms \<Longrightarrow>
   map_of (globals (snd (exec_stmts (map Import_star ms) s))) n = map_of (globals s) n"
proof (induction ms arbitrary: s)
  case Nil
  show ?case by simp
next
  case (Cons m ms)
  let ?s1 = "snd (exec_stmt (Import_star m) s)"
  from Cons.prems(2) obtain x where x: "heap s = heap b @ x" by blast
  from import_star_heap [of m s] obtain y where y: "heap ?s1 = heap b @ x @ y"
    by (auto simp: x)
  have md: "modules ?s1 = modules b"
    using Cons.prems(1) by (simp add: import_star_same)
  from Cons.prems(3) have "exported (heap b) (modules b) m n = None" by simp
  with exported_wf [OF wf, of "x @ y" m n]
  have "exported (heap ?s1) (modules s) m n = None"
    by (simp add: y Cons.prems(1))
  moreover from Cons.prems(4) have "n \<noteq> m" by auto
  ultimately have g1: "map_of (globals ?s1) n = map_of (globals s) n"
    by (rule import_star_keep)
  have "map_of (globals (snd (exec_stmts (map Import_star ms) ?s1))) n = map_of (globals ?s1) n"
    using md y Cons.prems(3,4) by (intro Cons.IH) auto
  with g1 show ?case
    by (simp add: exec_stmts_Cons)
qed

lemma imports_fst:
  assumes wf: "well_formed b"
  shows "modules s = modules b \<Longrightarrow> loaders s = loaders b \<Longrightarrow> \<exists>x. heap s = heap b @ x \<Longrightarrow>
   list_all (\<lambda>m. map_of (sys_modules s) m = map_of (sys_modules b) m) ms \<Longrightarrow> distinct ms \<Longrightarrow>
   fst (exec_stmts (map Import_star ms) s) = first_fault b ms"
proof (induction ms arbitrary: s)
  case Nil
  show ?case by simp
next
  case (Cons m ms)
  let ?s1 = "snd (exec_stmt (Import_star m) s)"
  from Cons.prems(3) obtain x where x: "heap s = heap b @ x" by blast
  from import_star_heap [of m s] obtain y where y: "heap ?s1 = heap b @ x @ y"
    by (auto simp: x)
  have md: "modules ?s1 = modules b" and ld: "loaders ?s1 = loaders b"
    using Cons.prems(1,2) by (simp_all add: import_star_same)
  from Cons.prems(2) have "top_level s m = top_level b m"
    by (simp add: top_level_def)
  with Cons.prems(4) have lf: "load_fault s m = load_fault b m"
    by (simp add: load_fault_def split: option.splits)
  have "import_fault (heap ?s1) (modules s) m = import_fault (heap b) (modules b) m"
    using import_fault_wf [OF wf, of "x @ y" m] by (simp add: y Cons.prems(1))
  then have one: "fst (exec_stmt (Import_star m) s) = module_fault b m"
    by (subst import_star_fst) (simp add: module_fault_def lf Cons.prems(1) split: option.splits)
  have sys: "list_all (\<lambda>m'. map_of (sys_modules ?s1) m' = map_of (sys_modules b) m') ms"
    unfolding list_all_iff
  proof
    fix m' assume m': "m' \<in> set ms"
    with Cons.prems(5) have "m' \<noteq> m" by auto
    from import_star_sys_other [OF this, of s] Cons.prems(4) m'
    show "map_of (sys_modules ?s1) m' = map_of (sys_modules b) m'"
      by (simp add: list_all_iff)
  qed
  have "fst (exec_stmts (map Import_star ms) ?s1) = first_fault b ms"
    using md ld y sys Cons.prems(5) by (intro Cons.IH) auto
  with one show ?case
    by (auto simp add: exec_stmts_Cons split: option.splits)
qed

subsection \<open>The whole body\<close>

lemma run_body_imports:
  "run_body s = exec_stmts (map Import_star collaborators) (after_decls s)"
  by (simp add: run_body_def plotting_init_def star_imports_def exec_stmts_append
      exec_export_decls)

lemma run_body_same:
  "modules (snd (run_body s)) = modules s"
  "loaders (snd (run_body s)) = loaders s"
  by (simp_all add: run_body_imports imports_same after_decls_simps)

lemma run_body_heap: "\<exists>x. heap (snd (run_body s)) = heap s @ PyList declared_names # x"
  using imports_heap [of collaborators "after_decls s"]
  by (auto simp: run_body_imports after_decls_simps)




lemma run_body_globals:
  "fst (run_body s) = None \<Longrightarrow> n \<notin> set collaborators \<Longrightarrow>
   map_of (globals (snd (run_body s))) n =
     (case last_wins (heap (snd (run_body s))) (modules s) collaborators n of
        Some a \<Rightarrow> Some a
      | None \<Rightarrow> if n = ''__all__'' then Some (length (heap s)) else map_of (globals s) n)"
  using imports_globals [of collaborators "after_decls s" n]
  by (auto simp: run_body_imports after_decls_simps split: option.splits)

lemma collaborators_distinct: "distinct collaborators"
  by (simp add: collaborators_def)

lemma run_body_fst:
  assumes wf: "well_formed s"
  shows "fst (run_body s) = first_fault s collaborators"
  unfolding run_body_imports
  by (rule imports_fst [OF wf])
     (simp_all add: after_decls_simps list_all_iff collaborators_distinct)

subsection \<open>The import by a caller\<close>

lemma import_plotting_Inr:
  "(import_plotting s = Inr s') =
     (fst (run_body (fresh s)) = None \<and> s' = snd (run_body (fresh s)))"
  by (cases "run_body (fresh s)") (auto simp: import_plotting_def split: option.splits)

lemma import_plotting_Inl:
  "(import_plotting s = Inl e) = (fst (run_body (fresh s)) = Some e)"
  by (cases "run_body (fresh s)") (auto simp: import_plotting_def split: option.splits)

lemma fresh_simps:
  "heap (fresh s) = heap s" "modules (fresh s) = modules s" "globals (fresh s) = []"
  "sys_modules (fresh s) = sys_modules s" "loaders (fresh s) = loaders s"
  "world (fresh s) = world s" "well_formed (fresh s) = well_formed s"
  by (simp_all add: fresh_def well_formed_def)

lemma top_level_fresh: "top_level (fresh s) m = top_level s m"
  by (simp add: top_level_def fresh_simps)

lemma load_fault_fresh: "load_fault (fresh s) m = load_fault s m"
  by (simp add: load_fault_def top_level_fresh fresh_simps split: option.splits)

lemma module_fault_fresh: "module_fault (fresh s) m = module_fault s m"
  by (simp add: module_fault_def load_fault_fresh fresh_simps split: option.splits)

lemma first_fault_fresh: "first_fault (fresh s) ms = first_fault s ms"
  by (induction ms) (simp_all add: module_fault_fresh split: option.splits)

lemma import_plotting_fault:
  "well_formed s \<Longrightarrow> (import_plotting s = Inl e) = (first_fault s collaborators = Some e)"
  by (simp add: import_plotting_Inl run_body_fst fresh_simps first_fault_fresh)


subsection \<open>The names\<close>

lemma declared_not_module: "n \<in> set declared_names \<Longrightarrow> n \<notin> set collaborators \<and> n \<noteq> ''__all__''"
  by (auto simp: declared_names_def collaborators_def)

lemma owners_collaborators:
  "(n, m) \<in> set owners \<Longrightarrow> m \<in> set collaborators \<and> n \<notin> set collaborators"
  by (auto simp: owners_def collaborators_def)

lemma all_not_module: "''__all__'' \<notin> set collaborators"
  by (simp add: collaborators_def)



subsection \<open>Loaded siblings, effects, and the last exporter\<close>







lemma imports_export_list:
  assumes wf: "well_formed s"
    and none: "list_all (\<lambda>m. exported (heap s) (modules s) m ''__all__'' = None) ms"
    and n: "''__all__'' \<notin> set ms"
  shows "export_list (snd (exec_stmts (map Import_star ms) (after_decls s))) = Some declared_names"
proof -
  let ?s' = "snd (exec_stmts (map Import_star ms) (after_decls s))"
  have "map_of (globals ?s') ''__all__'' = map_of (globals (after_decls s)) ''__all__''"
    by (rule imports_keep [OF wf _ _ none n]) (simp_all add: after_decls_simps)
  then have g: "map_of (globals ?s') ''__all__'' = Some (length (heap s))"
    by (simp add: after_decls_simps)
  from imports_heap [of ms "after_decls s"] obtain x
    where "heap ?s' = heap s @ PyList declared_names # x"
    by (auto simp: after_decls_simps)
  with g show ?thesis
    by (simp add: export_list_def heap_get_def nth_append)
qed

section \<open>The claims\<close>

text \<open>
  C5: the export list built by the five lines that assign and extend \<^verbatim>\<open>__all__\<close> has no
  duplicate entry. From any state, the five statements run without error and leave
  \<^verbatim>\<open>__all__\<close> bound to a list of eleven names that are pairwise different.
\<close>

theorem export_decls_distinct:
  "fst (exec_stmts export_decls s) = None \<and>
   (\<exists>xs. export_list (snd (exec_stmts export_decls s)) = Some xs \<and>
         distinct xs \<and> length xs = 11)"
  by (simp add: exec_export_decls export_list_def after_decls_def heap_get_def update_conv'
      declared_names_def)

text \<open>
  C1: after the body has run, \<^verbatim>\<open>__all__\<close> holds exactly the eleven declared names in the
  declared order. As stated this fails when a sibling module lists \<^verbatim>\<open>__all__\<close> in its
  own \<^verbatim>\<open>__all__\<close>: the wildcard import then rebinds the package's \<^verbatim>\<open>__all__\<close> to the
  sibling's list.
\<close>

theorem reexport_rebinds_export_list:
  "fst (run_body reexport_state) = None \<and>
   export_list (snd (run_body reexport_state)) =
     Some [''__all__'', ''imshow_field'', ''contour_field'', ''contourf_field'']"
  by code_simp

text \<open>
  C1, amended: when the body completes and no sibling module exports the name
  \<^verbatim>\<open>__all__\<close>, the export list is exactly the eleven declared names, in order.
\<close>

theorem export_list_after_init:
  assumes ok: "fst (run_body s) = None"
    and none: "list_all (\<lambda>m. exported (heap (snd (run_body s))) (modules (snd (run_body s))) m
                              ''__all__'' = None) collaborators"
  shows "export_list (snd (run_body s)) = Some declared_names"
proof -
  from none have "last_wins (heap (snd (run_body s))) (modules s) collaborators ''__all__'' = None"
    by (simp add: last_wins_none run_body_same)
  with run_body_globals [OF ok all_not_module]
  have g: "map_of (globals (snd (run_body s))) ''__all__'' = Some (length (heap s))"
    by simp
  from run_body_heap [of s] obtain x
    where "heap (snd (run_body s)) = heap s @ PyList declared_names # x" by blast
  with g show ?thesis
    by (simp add: export_list_def heap_get_def nth_append)
qed

theorem export_list_after_init_witness:
  "fst (run_body demo_state) = None \<and>
   list_all (\<lambda>m. exported (heap (snd (run_body demo_state))) (modules (snd (run_body demo_state)))
                 m ''__all__'' = None) collaborators \<and>
   export_list (snd (run_body demo_state)) = Some declared_names"
proof -
  have a: "fst (run_body demo_state) = None"
    by code_simp
  have b: "list_all (\<lambda>m. exported (heap (snd (run_body demo_state)))
      (modules (snd (run_body demo_state))) m ''__all__'' = None) collaborators"
    by code_simp
  from export_list_after_init [OF a b] a b show ?thesis by blast
qed




text \<open>
  C3: each declared name resolves to the very object its owning module defines. As stated
  this fails when a module imported later exports the same name: with a field module that
  has a \<^verbatim>\<open>GifWriter\<close> of its own (object 13), the package's \<^verbatim>\<open>GifWriter\<close> is that
  object and not the one of the animation module (object 0).
\<close>

theorem later_definition_replaces_owner:
  "map_of owners ''GifWriter'' = Some ''animation'' \<and>
   exported (heap shadow_state) (modules shadow_state) ''animation'' ''GifWriter'' = Some 0 \<and>
   resolve (import_plotting shadow_state) ''GifWriter'' = Some 13"
  by code_simp

text \<open>
  C3, amended: when the import completes, a declared name whose owning module exports it,
  and which no module imported after the owner exports, resolves to the same address as in
  the owner: the identical object, not a copy.
\<close>

theorem resolve_owner_object:
  assumes imp: "import_plotting s = Inr s'"
    and own: "(n, m) \<in> set owners"
    and ex: "exported (heap s') (modules s') m n = Some a"
    and none: "list_all (\<lambda>m'. exported (heap s') (modules s') m' n = None)
                 (later m collaborators)"
  shows "resolve (import_plotting s) n = Some a \<and>
         (\<exists>ns. map_of (modules s) m = Some ns \<and> map_of ns n = Some a)"
proof -
  from imp have ok: "fst (run_body (fresh s)) = None" and s': "s' = snd (run_body (fresh s))"
    by (simp_all add: import_plotting_Inr)
  from s' have md: "modules s' = modules s"
    by (simp add: run_body_same fresh_simps)
  from own have m: "m \<in> set collaborators" and n: "n \<notin> set collaborators"
    by (simp_all add: owners_collaborators)
  from last_wins_later [OF m ex none]
  have "last_wins (heap (snd (run_body (fresh s)))) (modules s) collaborators n = Some a"
    by (simp add: s' [symmetric] md)
  with run_body_globals [OF ok n] have "map_of (globals s') n = Some a"
    by (simp add: s' fresh_simps)
  with imp have "resolve (import_plotting s) n = Some a"
    by (simp add: resolve_def)
  moreover from exported_defined [OF ex] md
  have "\<exists>ns. map_of (modules s) m = Some ns \<and> map_of ns n = Some a"
    by simp
  ultimately show ?thesis by blast
qed

theorem resolve_owner_object_witness:
  "import_plotting demo_state = Inr (snd (run_body (fresh demo_state))) \<and>
   (''imshow_field'', ''field'') \<in> set owners \<and>
   exported (heap (snd (run_body (fresh demo_state))))
     (modules (snd (run_body (fresh demo_state)))) ''field'' ''imshow_field'' = Some 8 \<and>
   list_all (\<lambda>m'. exported (heap (snd (run_body (fresh demo_state))))
       (modules (snd (run_body (fresh demo_state)))) m' ''imshow_field'' = None)
     (later ''field'' collaborators) \<and>
   resolve (import_plotting demo_state) ''imshow_field'' = Some 8"
proof -
  have "fst (run_body (fresh demo_state)) = None"
    by code_simp
  then have a: "import_plotting demo_state = Inr (snd (run_body (fresh demo_state)))"
    by (simp add: import_plotting_Inr)
  have b: "(''imshow_field'', ''field'') \<in> set owners"
    by code_simp
  have c: "exported (heap (snd (run_body (fresh demo_state))))
      (modules (snd (run_body (fresh demo_state)))) ''field'' ''imshow_field'' = Some 8"
    by code_simp
  have d: "list_all (\<lambda>m'. exported (heap (snd (run_body (fresh demo_state))))
       (modules (snd (run_body (fresh demo_state)))) m' ''imshow_field'' = None)
     (later ''field'' collaborators)"
    by code_simp
  from resolve_owner_object [OF a b c d] a b c d show ?thesis by blast
qed

text \<open>
  C4: aggregation is all or nothing: a sibling module that lacks a declared name makes it
  fail, and then no name is usable. As stated this fails: with an error bars stub that
  defines no \<^verbatim>\<open>errorfill\<close> the import completes, \<^verbatim>\<open>errorfill\<close> is unbound and the
  other names, such as \<^verbatim>\<open>imshow_field\<close>, are usable.
\<close>

theorem stub_without_errorfill_usable:
  "\<not> isl (import_plotting no_errorfill_state) \<and>
   resolve (import_plotting no_errorfill_state) ''errorfill'' = None \<and>
   resolve (import_plotting no_errorfill_state) ''imshow_field'' = Some 8"
  by code_simp

text \<open>
  C4, amended: what a caller can resolve is all or nothing only with respect to the faults
  of the wildcard imports. When one of them faults, no declared name resolves. When none
  does, each declared name resolves to what the last module that exports it binds, and is
  unbound when no module exports it, whatever happens to the other names.
\<close>

theorem resolve_after_import:
  assumes wf: "well_formed s" and n: "n \<in> set declared_names"
  shows "resolve (import_plotting s) n =
     (if first_fault s collaborators = None
      then last_wins (heap s) (modules s) collaborators n
      else None)"
proof (cases "first_fault s collaborators")
  case None
  with wf have ok: "fst (run_body (fresh s)) = None"
    by (simp add: run_body_fst fresh_simps first_fault_fresh)
  then have "import_plotting s = Inr (snd (run_body (fresh s)))"
    by (simp add: import_plotting_Inr)
  then have "resolve (import_plotting s) n = map_of (globals (snd (run_body (fresh s)))) n"
    by (simp add: resolve_def)
  also have "\<dots> = last_wins (heap (snd (run_body (fresh s)))) (modules s) collaborators n"
    using run_body_globals [OF ok, of n] declared_not_module [OF n]
    by (simp add: fresh_simps split: option.splits)
  also have "\<dots> = last_wins (heap s) (modules s) collaborators n"
  proof -
    from run_body_heap [of "fresh s"] obtain x
      where "heap (snd (run_body (fresh s))) = heap s @ PyList declared_names # x"
      by (auto simp: fresh_simps)
    with last_wins_wf [OF wf] show ?thesis by simp
  qed
  finally show ?thesis using None by simp
next
  case (Some e)
  with wf have "import_plotting s = Inl e"
    by (simp add: import_plotting_fault)
  with Some show ?thesis by (simp add: resolve_def)
qed

theorem resolve_after_import_witness:
  "well_formed no_errorfill_state \<and> ''contour_field'' \<in> set declared_names \<and>
   resolve (import_plotting no_errorfill_state) ''contour_field'' = Some 9"
proof -
  have a: "well_formed no_errorfill_state"
    by code_simp
  have b: "''contour_field'' \<in> set declared_names"
    by code_simp
  have c: "first_fault no_errorfill_state collaborators = None"
    by code_simp
  have d: "last_wins (heap no_errorfill_state) (modules no_errorfill_state) collaborators
      ''contour_field'' = Some 9"
    by code_simp
  from resolve_after_import [OF a b] c d
  have "resolve (import_plotting no_errorfill_state) ''contour_field'' = Some 9"
    by simp
  with a b show ?thesis by blast
qed










text \<open>
  C9: the export list is assigned in full before the first wildcard import runs, and
  whatever the sibling modules define or fail to define it stays the same eleven strings.
  The last part fails as stated: an animation module whose own \<^verbatim>\<open>__all__\<close> (here a
  tuple) names \<^verbatim>\<open>__all__\<close> makes the wildcard import rebind the package's export list.
\<close>

theorem tuple_reexport_rebinds_export_list:
  "fst (run_body tuple_reexport_state) = None \<and>
   export_list (snd (run_body tuple_reexport_state)) =
     Some [''GifWriter'', ''FFMpegWriter'', ''__all__'']"
  by code_simp

text \<open>
  C9, amended: the first five statements of the body are the declarations and the last
  five are the wildcard imports, in that order. From any state, whatever the sibling
  modules are, the first five complete and leave the export list equal to the eleven
  declared names: it is assigned in full before any wildcard import runs. And when no
  sibling module exports the name \<^verbatim>\<open>__all__\<close>, the export list is these eleven names
  at every later point of the body, after each wildcard import that ran, whether the body
  goes on to complete or stops at an import that raises, and whatever else the siblings
  define or fail to define.
\<close>

theorem export_list_fixed_before_imports:
  "take 5 plotting_init = export_decls \<and>
   drop 5 plotting_init = map Import_star collaborators \<and>
   fst (exec_stmts (take 5 plotting_init) s) = None \<and>
   export_list (snd (exec_stmts (take 5 plotting_init) s)) = Some declared_names \<and>
   (well_formed s \<longrightarrow>
    list_all (\<lambda>m. exported (heap s) (modules s) m ''__all__'' = None) collaborators \<longrightarrow>
    5 \<le> k \<longrightarrow>
    export_list (snd (exec_stmts (take k plotting_init) s)) = Some declared_names)"
proof -
  have len: "length export_decls = 5"
    by (simp add: export_decls_def)
  have t5: "take 5 plotting_init = export_decls"
    and d5: "drop 5 plotting_init = map Import_star collaborators"
    by (simp_all add: plotting_init_def star_imports_def len)
  have e5: "export_list (after_decls s) = Some declared_names"
    by (simp add: export_list_def after_decls_def heap_get_def update_conv')
  have later: "export_list (snd (exec_stmts (take k plotting_init) s)) = Some declared_names"
    if wf: "well_formed s"
      and none: "list_all (\<lambda>m. exported (heap s) (modules s) m ''__all__'' = None) collaborators"
      and k: "5 \<le> k"
  proof -
    let ?ms = "take (k - 5) collaborators"
    from k have tk: "take k plotting_init = export_decls @ map Import_star ?ms"
      by (simp add: plotting_init_def star_imports_def len take_map)
    from none have n1: "list_all (\<lambda>m. exported (heap s) (modules s) m ''__all__'' = None) ?ms"
      by (auto simp: list_all_iff dest: in_set_takeD)
    from all_not_module have n2: "''__all__'' \<notin> set ?ms"
      by (auto dest: in_set_takeD)
    from imports_export_list [OF wf n1 n2] show ?thesis
      by (simp add: tk exec_stmts_append exec_export_decls)
  qed
  from t5 d5 e5 later show ?thesis
    by (simp add: exec_export_decls)
qed

theorem export_list_fixed_before_imports_witness:
  "well_formed bad_all_state \<and>
   list_all (\<lambda>m. exported (heap bad_all_state) (modules bad_all_state) m ''__all__'' = None)
     collaborators \<and>
   (5::nat) \<le> 10 \<and>
   fst (exec_stmts (take 10 plotting_init) bad_all_state) = Some AttributeError \<and>
   export_list (snd (exec_stmts (take 10 plotting_init) bad_all_state)) = Some declared_names"
proof -
  have a: "well_formed bad_all_state"
    by code_simp
  have b: "list_all (\<lambda>m. exported (heap bad_all_state) (modules bad_all_state) m ''__all__'' = None)
      collaborators"
    by code_simp
  have c: "fst (exec_stmts (take 10 plotting_init) bad_all_state) = Some AttributeError"
    by code_simp
  from export_list_fixed_before_imports [of bad_all_state 10] a b c show ?thesis
    by simp
qed




end
